theory Spec2Isabelle
  imports Complex_Main "HOL-Library.AList"
begin

section \<open>The world state of the game server (server.js)\<close>

text \<open>
  The server keeps three global tables: \<open>players\<close> (id to player object),
  \<open>spriteDatabase\<close> (sprite name to sprite object) and \<open>connections\<close> (id to web
  socket), and it reads and writes the \<open>sprites\<close> directory. They are modelled by one
  record \<open>server\<close> that every handler takes and returns. What a handler sends or
  schedules is returned as a list of effects, in the order of the source.

  Conventions of the model:
  \<^item> JavaScript numbers are modelled as reals (coordinates) and integers (time stamps in
    milliseconds); \<open>NaN\<close> and the rounding of doubles are outside the model.
  \<^item> The objects \<open>players\<close> and \<open>spriteDatabase\<close> are association lists with distinct
    keys, in the enumeration order of \<open>for ... in\<close>; an assignment to a present key keeps
    its place and a new key goes last, which is what \<open>AList.update\<close> does.
  \<^item> Session ids are produced by \<open>Math.random().toString(36).substr(2, 9)\<close>: at most nine
    characters out of \<open>0-9a-z\<close>. No such string names a property that a plain object
    inherits, so \<open>players[playerId]\<close> is the lookup \<open>map_of\<close>.
  \<^item> \<open>Date.now()\<close> and \<open>Math.random()\<close> are arguments of the function that calls them.
  \<^item> \<open>console.log\<close> is left out.
\<close>

datatype js_error = TypeError

record frames =
  north :: "string list"
  south :: "string list"
  east :: "string list"
  west :: "string list"

text \<open>The field \<open>custom\<close> is absent from a sprite found in the directory; absent is \<open>False\<close>.\<close>

record sprite =
  name :: string
  frames :: frames
  lastModified :: int
  custom :: bool

text \<open>\<open>targetX\<close> and \<open>targetY\<close> are \<open>null\<close> (\<open>None\<close>) or a number.\<close>

record player =
  id_player :: string
  x :: real
  y :: real
  sprite :: string
  facing :: string
  isMoving :: bool
  username :: string
  targetX :: "real option"
  targetY :: "real option"
  animationFrame :: nat
  lastAnimationUpdate :: int

datatype ready_state = CONNECTING | OPEN | CLOSING | CLOSED

text \<open>
  The sprites directory: whether it exists, and its folders in the order of
  \<open>readdirSync\<close>, each with its files (file name and what was written). A sprite name is
  taken to be one path segment, so that \<open>path.join(SPRITES_DIR, spriteName)\<close> is the folder
  of that name. A written buffer is represented by the base64 text it is decoded from.
\<close>

record asset_store =
  root_exists :: bool
  folders :: "(string \<times> (string \<times> string) list) list"

record server =
  players :: "(string \<times> player) list"
  spriteDatabase :: "(string \<times> sprite) list"
  connections :: "(string \<times> ready_state) list"
  store :: asset_store

subsection \<open>Messages\<close>

datatype response_data =
    NoData
  | Sprites "(string \<times> sprite) list"
  | SpriteData sprite
  | JoinData string "(string \<times> player) list"

text \<open>The \<open>error\<close> field of a response: a literal text, or the message of a caught exception.\<close>

datatype response_error = Text string | Thrown js_error

datatype update_data = PlayerUpdate player | PlayerLeft string | SpriteAdded sprite

datatype message =
    Response string bool response_data "response_error option"
  | Update string string update_data

text \<open>
  \<open>Send c m\<close>: \<open>ws.send(JSON.stringify(m))\<close> on the socket of session \<open>c\<close>. The message is
  serialised when it is sent, so it holds the state of that moment.
  \<open>SaveSpriteDatabase\<close>: a call of \<open>saveSpriteDatabase()\<close>.
\<close>

datatype effect = Send string message | SaveSpriteDatabase

subsection \<open>World constants and arithmetic helpers\<close>

definition world_width :: real where
  "world_width = 4096"

definition world_height :: real where
  "world_height = 4096"

definition clamp :: "real \<Rightarrow> real \<Rightarrow> real \<Rightarrow> real" where
  "clamp v lo hi = min (max v lo) hi"

definition distance :: "real \<Rightarrow> real \<Rightarrow> real \<Rightarrow> real \<Rightarrow> real" where
  "distance x1 y1 x2 y2 = sqrt ((x2 - x1)\<^sup>2 + (y2 - y1)\<^sup>2)"

subsection \<open>Sending\<close>

definition broadcast :: "server \<Rightarrow> message \<Rightarrow> string option \<Rightarrow> effect list" where
  "broadcast s data excludePlayerId =
     map (\<lambda>(playerId, ws). Send playerId data)
       (filter (\<lambda>(playerId, ws). Some playerId \<noteq> excludePlayerId \<and> ws = OPEN)
          (connections s))"

definition sendToPlayer :: "server \<Rightarrow> string \<Rightarrow> message \<Rightarrow> effect list" where
  "sendToPlayer s playerId data =
     (case map_of (connections s) playerId of
        Some OPEN \<Rightarrow> [Send playerId data]
      | _ \<Rightarrow> [])"

text \<open>
  \<open>responseData\<close> is copied into the response only on success, \<open>error\<close> only on failure
  and when it is not \<open>null\<close>.
\<close>

definition sendResponse ::
  "server \<Rightarrow> string \<Rightarrow> string \<Rightarrow> bool \<Rightarrow> response_data \<Rightarrow> response_error option \<Rightarrow> effect list"
where
  "sendResponse s playerId action success responseData error =
     sendToPlayer s playerId
       (Response action success
          (if success then responseData else NoData)
          (if \<not> success then error else None))"

definition broadcastUpdate ::
  "server \<Rightarrow> string \<Rightarrow> string \<Rightarrow> update_data \<Rightarrow> string option \<Rightarrow> effect list"
where
  "broadcastUpdate s category action updateData excludePlayerId =
     broadcast s (Update category action updateData) excludePlayerId"

subsection \<open>Movement commands\<close>

text \<open>
  The \<open>movement\<close> object of a move command, read the way \<open>handlePlayerMove\<close> reads it:
  \<open>stop\<close> is the truthiness of \<open>movement.stop\<close>; \<open>direction\<close> is \<open>movement.direction\<close>,
  the empty string when the field is absent (both are falsy); \<open>move_x\<close> and \<open>move_y\<close> are
  \<open>movement.x\<close> and \<open>movement.y\<close>, \<open>None\<close> when \<open>undefined\<close>, and numbers otherwise
  (the protocol sends numbers; the coercion of other values by \<open>-\<close> is outside the model).
  A truthy \<open>direction\<close> that is no string matches no case of the \<open>switch\<close>, like any
  string other than the four. The command itself is \<open>None\<close> when \<open>data.movement\<close> is
  missing: reading a field of it then throws.
\<close>

record movement =
  stop :: bool
  direction :: string
  move_x :: "real option"
  move_y :: "real option"

text \<open>The branch \<open>if (movement.stop)\<close>.\<close>

definition stopPlayer :: "player \<Rightarrow> player" where
  "stopPlayer p =
     p\<lparr>isMoving := False, targetX := None, targetY := None, animationFrame := 0\<rparr>"

text \<open>
  The branch \<open>else if (movement.direction)\<close>: a step of 15 along one axis, clamped on the
  side it moves to; a direction that is none of the four leaves position and facing.
\<close>

definition directionPlayer :: "int \<Rightarrow> string \<Rightarrow> player \<Rightarrow> player" where
  "directionPlayer now d p =
     (let speed = 15;
          newX = (if d = ''left'' then max 0 (x p - speed)
                  else if d = ''right'' then min (world_width - 50) (x p + speed)
                  else x p);
          newY = (if d = ''up'' then max 0 (y p - speed)
                  else if d = ''down'' then min (world_height - 50) (y p + speed)
                  else y p);
          newFacing = (if d = ''up'' then ''north''
                       else if d = ''down'' then ''south''
                       else if d = ''left'' then ''west''
                       else if d = ''right'' then ''east''
                       else facing p);
          p1 = p\<lparr>x := newX, y := newY, facing := newFacing, isMoving := True,
                 targetX := None, targetY := None\<rparr>
      in if now - lastAnimationUpdate p1 > 200
         then p1\<lparr>animationFrame := (animationFrame p1 + 1) mod 3,
                  lastAnimationUpdate := now\<rparr>
         else p1)"

text \<open>The branch for click-to-move: only the target is stored.\<close>

definition clickPlayer :: "real \<Rightarrow> real \<Rightarrow> player \<Rightarrow> player" where
  "clickPlayer cx cy p =
     p\<lparr>targetX := Some (clamp (cx - 25) 0 (world_width - 50)),
       targetY := Some (clamp (cy - 25) 0 (world_height - 50))\<rparr>"

definition handlePlayerMove ::
  "server \<Rightarrow> string \<Rightarrow> movement option \<Rightarrow> int \<Rightarrow> js_error + (server \<times> effect list)"
where
  "handlePlayerMove s playerId mv now =
     (case map_of (players s) playerId of
        None \<Rightarrow> Inr (s, [])
      | Some p \<Rightarrow>
          (case mv of
             None \<Rightarrow> Inl TypeError
           | Some m \<Rightarrow>
               if stop m then
                 let p' = stopPlayer p
                 in Inr (s\<lparr>players := AList.update playerId p' (players s)\<rparr>,
                         broadcastUpdate s ''player'' ''moved'' (PlayerUpdate p') None)
               else if direction m \<noteq> [] then
                 let p' = directionPlayer now (direction m) p
                 in Inr (s\<lparr>players := AList.update playerId p' (players s)\<rparr>,
                         broadcastUpdate s ''player'' ''moved'' (PlayerUpdate p') None)
               else
                 (case (move_x m, move_y m) of
                    (Some cx, Some cy) \<Rightarrow>
                      Inr (s\<lparr>players := AList.update playerId (clickPlayer cx cy p) (players s)\<rparr>,
                           [])
                  | _ \<Rightarrow> Inr (s, []))))"

subsection \<open>Pursuit of a target and the game loop\<close>

text \<open>
  \<open>movePlayerTowards\<close> returns the changed player and whether the target was reached.
  The game loop calls it with \<open>speed = 3\<close>.
\<close>

definition movePlayerTowards :: "player \<Rightarrow> real \<Rightarrow> real \<Rightarrow> real \<Rightarrow> player \<times> bool" where
  "movePlayerTowards p tX tY speed =
     (let dist = distance (x p) (y p) tX tY
      in if dist \<le> speed then (p\<lparr>x := tX, y := tY, isMoving := False\<rparr>, True)
         else
           let ratio = speed / dist;
               oldX = x p;
               oldY = y p;
               movedX = x p + (tX - x p) * ratio;
               movedY = y p + (tY - y p) * ratio;
               deltaX = movedX - oldX;
               deltaY = movedY - oldY;
               newFacing = (if \<bar>deltaX\<bar> > \<bar>deltaY\<bar>
                            then (if deltaX > 0 then ''east'' else ''west'')
                            else (if deltaY > 0 then ''south'' else ''north''))
           in (p\<lparr>x := clamp movedX 0 (world_width - 50),
                  y := clamp movedY 0 (world_height - 50),
                  facing := newFacing, isMoving := True\<rparr>, False))"

text \<open>
  The body of the first loop of the game loop for one player: the changed player and
  whether \<open>hasUpdates\<close> is set.
\<close>

definition tickPlayer :: "int \<Rightarrow> player \<Rightarrow> player \<times> bool" where
  "tickPlayer now p =
     (case (targetX p, targetY p) of
        (Some tX, Some tY) \<Rightarrow>
          (case movePlayerTowards p tX tY 3 of
             (p1, True) \<Rightarrow>
               (p1\<lparr>targetX := None, targetY := None, isMoving := False,
                    animationFrame := 0\<rparr>, True)
           | (p1, False) \<Rightarrow>
               (if now - lastAnimationUpdate p1 > 200
                then p1\<lparr>animationFrame := (animationFrame p1 + 1) mod 3,
                         lastAnimationUpdate := now\<rparr>
                else p1, True))
      | _ \<Rightarrow>
          if \<not> isMoving p \<and> now - lastAnimationUpdate p > 1000
          then (p\<lparr>animationFrame := (animationFrame p + 1) mod 3,
                   lastAnimationUpdate := now\<rparr>, True)
          else (p, False))"

text \<open>The first loop, with the flag \<open>hasUpdates\<close> threaded through.\<close>

fun tickPlayers ::
  "int \<Rightarrow> (string \<times> player) list \<Rightarrow> bool \<Rightarrow> (string \<times> player) list \<times> bool"
where
  "tickPlayers now [] hasUpdates = ([], hasUpdates)"
| "tickPlayers now ((playerId, p) # rest) hasUpdates =
     (case tickPlayer now p of
        (p', updated) \<Rightarrow>
          (case tickPlayers now rest (hasUpdates \<or> updated) of
             (rest', hasUpdates') \<Rightarrow> ((playerId, p') # rest', hasUpdates')))"

text \<open>The second loop: which players are announced.\<close>

definition announced :: "player \<Rightarrow> bool" where
  "announced p \<longleftrightarrow> targetX p \<noteq> None \<or> targetY p \<noteq> None \<or> isMoving p"

definition gameLoop :: "server \<Rightarrow> int \<Rightarrow> server \<times> effect list" where
  "gameLoop s now =
     (case tickPlayers now (players s) False of
        (ps, hasUpdates) \<Rightarrow>
          (s\<lparr>players := ps\<rparr>,
           if hasUpdates
           then concat (map (\<lambda>(playerId, p).
                  if announced p
                  then broadcastUpdate s ''player'' ''moved'' (PlayerUpdate p) None
                  else []) ps)
           else []))"

subsection \<open>Looking a sprite up\<close>

text \<open>
  \<open>spriteDatabase\<close> is a plain object, so \<open>spriteDatabase[k]\<close> is truthy for a key of the
  table and also for a property name inherited from \<open>Object.prototype\<close>. (Assigning the
  key \<open>__proto__\<close> replaces the prototype instead of storing an entry; sprites of that
  name are outside the model.)
\<close>

definition object_prototype_keys :: "string list" where
  "object_prototype_keys =
     [''constructor'', ''__proto__'', ''hasOwnProperty'', ''isPrototypeOf'',
      ''propertyIsEnumerable'', ''toLocaleString'', ''toString'', ''valueOf'',
      ''__defineGetter__'', ''__defineSetter__'', ''__lookupGetter__'',
      ''__lookupSetter__'']"

definition has_property :: "(string \<times> 'a) list \<Rightarrow> string \<Rightarrow> bool" where
  "has_property obj k \<longleftrightarrow> map_of obj k \<noteq> None \<or> k \<in> set object_prototype_keys"

subsection \<open>Joining and changing the sprite\<close>

text \<open>
  \<open>playerInfo\<close> as \<open>handlePlayerJoin\<close> reads it: both fields are used through their
  truthiness, so an absent field is the empty string. \<open>None\<close> is a missing
  \<open>data.playerInfo\<close>.
\<close>

record playerInfo =
  info_sprite :: string
  info_username :: string

definition newPlayer :: "server \<Rightarrow> string \<Rightarrow> playerInfo \<Rightarrow> int \<Rightarrow> real \<Rightarrow> real \<Rightarrow> player" where
  "newPlayer s playerId info now random1 random2 =
     \<lparr>id_player = playerId,
      x = of_int \<lfloor>random1 * (world_width - 50)\<rfloor>,
      y = of_int \<lfloor>random2 * (world_height - 50)\<rfloor>,
      sprite = (if info_sprite info \<noteq> [] \<and> has_property (spriteDatabase s) (info_sprite info)
                then info_sprite info else ''default''),
      facing = ''south'',
      isMoving = False,
      username = (if info_username info \<noteq> [] then info_username info
                  else ''Player'' @ take 4 playerId),
      targetX = None,
      targetY = None,
      animationFrame = 0,
      lastAnimationUpdate = now\<rparr>"

text \<open>The end of \<open>handlePlayerJoin\<close>, common to both branches.\<close>

definition announceJoin :: "server \<Rightarrow> string \<Rightarrow> player \<Rightarrow> effect list" where
  "announceJoin s playerId p =
     sendResponse s playerId ''join'' True (JoinData playerId (players s)) None
     @ broadcastUpdate s ''player'' ''joined'' (PlayerUpdate p) (Some playerId)"

definition handlePlayerJoin ::
  "server \<Rightarrow> string \<Rightarrow> playerInfo option \<Rightarrow> int \<Rightarrow> real \<Rightarrow> real
     \<Rightarrow> js_error + (server \<times> effect list)"
where
  "handlePlayerJoin s playerId info now random1 random2 =
     (case map_of (players s) playerId of
        None \<Rightarrow>
          (case info of
             None \<Rightarrow> Inl TypeError
           | Some i \<Rightarrow>
               let p = newPlayer s playerId i now random1 random2;
                   s' = s\<lparr>players := AList.update playerId p (players s)\<rparr>
               in Inr (s', announceJoin s' playerId p))
      | Some p \<Rightarrow> Inr (s, announceJoin s playerId p))"

definition dquote :: char where
  "dquote = CHR 0x22"

text \<open>\<open>spriteName\<close> is \<open>data.spriteName\<close>, the empty string when the field is absent.\<close>

definition handlePlayerChangeSprite :: "server \<Rightarrow> string \<Rightarrow> string \<Rightarrow> server \<times> effect list" where
  "handlePlayerChangeSprite s playerId spriteName =
     (let refuse =
            (s, sendResponse s playerId ''change_sprite'' False NoData
                  (Some (Text (if spriteName \<noteq> []
                               then ''Sprite '' @ [dquote] @ spriteName @ [dquote]
                                    @ '' does not exist''
                               else ''No sprite specified''))))
      in case map_of (players s) playerId of
           None \<Rightarrow> refuse
         | Some p \<Rightarrow>
             if spriteName \<noteq> [] \<and> has_property (spriteDatabase s) spriteName then
               let p' = p\<lparr>sprite := spriteName, animationFrame := 0\<rparr>
               in (s\<lparr>players := AList.update playerId p' (players s)\<rparr>,
                   sendResponse s playerId ''change_sprite'' True NoData None
                   @ broadcastUpdate s ''player'' ''changed_sprite'' (PlayerUpdate p') None)
             else refuse)"

subsection \<open>The sprite catalog: scanning the directory\<close>

text \<open>Decimal digits of a number, for \<open>${frame}\<close> and \<open>${frameNumber}\<close> in a file name.\<close>

fun show_nat :: "nat \<Rightarrow> string" where
  "show_nat n =
     (if n < 10 then [''0123456789'' ! n]
      else show_nat (n div 10) @ [''0123456789'' ! (n mod 10)])"

declare show_nat.simps [simp del]

definition frameFile :: "string \<Rightarrow> nat \<Rightarrow> string" where
  "frameFile dir frame = dir @ ''_'' @ show_nat frame @ ''.png''"

definition frameRef :: "string \<Rightarrow> string \<Rightarrow> nat \<Rightarrow> string" where
  "frameRef spriteName dir frame = ''sprites/'' @ spriteName @ ''/'' @ frameFile dir frame"

text \<open>The inner loop \<open>for (let frame = 1; frame <= 3; frame++)\<close> for one direction.\<close>

definition scanFrames :: "(string \<times> string) list \<Rightarrow> string \<Rightarrow> string \<Rightarrow> string list" where
  "scanFrames files spriteName dir =
     map (frameRef spriteName dir)
       (filter (\<lambda>frame. map_of files (frameFile dir frame) \<noteq> None) [1, 2, 3])"

text \<open>
  The body of the loop over the folders, on the catalog and the counter
  \<open>newSpritesFound\<close>. \<open>mtime\<close> is what \<open>fs.statSync(spritePath).mtime.getTime()\<close>
  reports for a folder.
\<close>

definition scanFolder ::
  "(string \<Rightarrow> int) \<Rightarrow> string \<times> (string \<times> string) list
     \<Rightarrow> (string \<times> sprite) list \<times> nat \<Rightarrow> (string \<times> sprite) list \<times> nat"
where
  "scanFolder mtime folder acc =
     (case (folder, acc) of
        ((spriteName, files), (db, newSpritesFound)) \<Rightarrow>
          if (case map_of db spriteName of
                Some existingSprite \<Rightarrow> lastModified existingSprite \<ge> mtime spriteName
              | None \<Rightarrow> False)
          then (db, newSpritesFound)
          else
            let fr = \<lparr>north = scanFrames files spriteName ''north'',
                      south = scanFrames files spriteName ''south'',
                      east = scanFrames files spriteName ''east'',
                      west = []\<rparr>;
                spriteData = \<lparr>name = spriteName, frames = fr\<lparr>west := east fr\<rparr>,
                              lastModified = mtime spriteName, custom = False\<rparr>
            in if north (frames spriteData) \<noteq> [] \<and> south (frames spriteData) \<noteq> []
                  \<and> east (frames spriteData) \<noteq> []
               then (AList.update spriteName spriteData db, newSpritesFound + 1)
               else (db, newSpritesFound))"

definition scanSpritesDirectory :: "server \<Rightarrow> (string \<Rightarrow> int) \<Rightarrow> server \<times> effect list" where
  "scanSpritesDirectory s mtime =
     (if \<not> root_exists (store s) then (s, [])
      else
        (case fold (scanFolder mtime) (folders (store s)) (spriteDatabase s, 0) of
           (db, newSpritesFound) \<Rightarrow>
             (s\<lparr>spriteDatabase := db\<rparr>,
              if newSpritesFound > 0 then [SaveSpriteDatabase] else [])))"

subsection \<open>The sprite catalog: uploads\<close>

text \<open>
  What a client sends as \<open>spriteFrames\<close> is any JSON value. An object is the list of its
  own properties in enumeration order, with distinct keys.
\<close>

datatype json =
    JNull
  | JBool bool
  | JNum real
  | JStr string
  | JArr "json list"
  | JObj "(string \<times> json) list"

text \<open>
  \<open>Object.entries\<close>: it throws on \<open>undefined\<close> (\<open>None\<close>) and \<open>null\<close>, gives the indexed
  elements of an array and the indexed characters of a string, and nothing for a boolean
  or a number.
\<close>

definition indexed :: "json list \<Rightarrow> (string \<times> json) list" where
  "indexed vs = zip (map show_nat [0..<length vs]) vs"

fun objectEntries :: "json option \<Rightarrow> js_error + (string \<times> json) list" where
  "objectEntries None = Inl TypeError"
| "objectEntries (Some JNull) = Inl TypeError"
| "objectEntries (Some (JBool b)) = Inr []"
| "objectEntries (Some (JNum r)) = Inr []"
| "objectEntries (Some (JStr cs)) = Inr (indexed (map (\<lambda>c. JStr [c]) cs))"
| "objectEntries (Some (JArr vs)) = Inr (indexed vs)"
| "objectEntries (Some (JObj kvs)) = Inr kvs"

text \<open>\<open>base64Data.replace(/^data:image\/[a-z]+;base64,/, '')\<close> on a string.\<close>

definition is_lower :: "char \<Rightarrow> bool" where
  "is_lower c \<longleftrightarrow> 97 \<le> (of_char c :: nat) \<and> (of_char c :: nat) \<le> 122"

definition stripDataUrl :: "string \<Rightarrow> string" where
  "stripDataUrl t =
     (if take 11 t = ''data:image/'' then
        let kind = takeWhile is_lower (drop 11 t);
            rest = dropWhile is_lower (drop 11 t)
        in if kind \<noteq> [] \<and> take 8 rest = '';base64,'' then drop 8 rest else t
      else t)"

text \<open>\<open>fs.mkdirSync(spritePath, { recursive: true })\<close>, called when the folder is absent.\<close>

definition ensureFolder :: "asset_store \<Rightarrow> string \<Rightarrow> asset_store" where
  "ensureFolder st spriteName =
     (if map_of (folders st) spriteName \<noteq> None then st
      else st\<lparr>root_exists := True, folders := AList.update spriteName [] (folders st)\<rparr>)"

definition writeFileSync :: "asset_store \<Rightarrow> string \<Rightarrow> string \<Rightarrow> string \<Rightarrow> asset_store" where
  "writeFileSync st spriteName file content =
     st\<lparr>folders :=
          AList.update spriteName
            (AList.update file content
               (case map_of (folders st) spriteName of Some files \<Rightarrow> files | None \<Rightarrow> []))
            (folders st)\<rparr>"

text \<open>
  \<open>frameArray.forEach((base64Data, index) => ...)\<close> from \<open>index\<close> on: each frame is
  written and its reference pushed. \<open>base64Data.replace\<close> throws on anything that is not
  a string; what was written before stays written. (\<open>Buffer.from(text, 'base64')\<close>
  accepts every string.)
\<close>

fun writeFrames ::
  "string \<Rightarrow> string \<Rightarrow> json list \<Rightarrow> nat \<Rightarrow> asset_store \<times> string list
     \<Rightarrow> asset_store \<times> (js_error + string list)"
where
  "writeFrames spriteName dir [] index (st, pushed) = (st, Inr pushed)"
| "writeFrames spriteName dir (JStr base64Data # rest) index (st, pushed) =
     (let frameNumber = index + 1
      in writeFrames spriteName dir rest (index + 1)
           (writeFileSync st spriteName (frameFile dir frameNumber) (stripDataUrl base64Data),
            pushed @ [frameRef spriteName dir frameNumber]))"
| "writeFrames spriteName dir (v # rest) index (st, pushed) = (st, Inl TypeError)"

text \<open>\<open>spriteData.frames[direction]\<close> for the three directions the loop accepts.\<close>

definition getFrames :: "frames \<Rightarrow> string \<Rightarrow> string list" where
  "getFrames fr dir =
     (if dir = ''north'' then north fr else if dir = ''south'' then south fr else east fr)"

definition setFrames :: "frames \<Rightarrow> string \<Rightarrow> string list \<Rightarrow> frames" where
  "setFrames fr dir paths =
     (if dir = ''north'' then fr\<lparr>north := paths\<rparr>
      else if dir = ''south'' then fr\<lparr>south := paths\<rparr>
      else fr\<lparr>east := paths\<rparr>)"

text \<open>The loop \<open>for (const [direction, frameArray] of Object.entries(imageData))\<close>.\<close>

fun uploadEntries ::
  "string \<Rightarrow> (string \<times> json) list \<Rightarrow> asset_store \<times> frames
     \<Rightarrow> asset_store \<times> (js_error + frames)"
where
  "uploadEntries spriteName [] (st, fr) = (st, Inr fr)"
| "uploadEntries spriteName ((dir, JArr frameArray) # rest) (st, fr) =
     (if dir \<in> set [''north'', ''south'', ''east''] then
        (case writeFrames spriteName dir frameArray 0 (st, getFrames fr dir) of
           (st', Inl e) \<Rightarrow> (st', Inl e)
         | (st', Inr paths) \<Rightarrow> uploadEntries spriteName rest (st', setFrames fr dir paths))
      else uploadEntries spriteName rest (st, fr))"
| "uploadEntries spriteName ((dir, v) # rest) (st, fr) = uploadEntries spriteName rest (st, fr)"

text \<open>
  \<open>addCustomSprite\<close> returns the server state, the registered sprite or the exception
  thrown, and the effects. \<open>spriteName\<close> is \<open>None\<close> when \<open>data.spriteName\<close> is not a
  string: \<open>path.join\<close> then throws before anything is touched. When a later step throws,
  the folder and the frames written so far remain.
\<close>

definition addCustomSprite ::
  "server \<Rightarrow> string option \<Rightarrow> json option \<Rightarrow> int
     \<Rightarrow> server \<times> (js_error + sprite) \<times> effect list"
where
  "addCustomSprite s spriteName imageData now =
     (case spriteName of
        None \<Rightarrow> (s, Inl TypeError, [])
      | Some nm \<Rightarrow>
          let st1 = ensureFolder (store s) nm
          in (case objectEntries imageData of
                Inl e \<Rightarrow> (s\<lparr>store := st1\<rparr>, Inl e, [])
              | Inr entries \<Rightarrow>
                  (case uploadEntries nm entries
                          (st1, \<lparr>north = [], south = [], east = [], west = []\<rparr>) of
                     (st2, Inl e) \<Rightarrow> (s\<lparr>store := st2\<rparr>, Inl e, [])
                   | (st2, Inr fr) \<Rightarrow>
                       let spriteData = \<lparr>name = nm, frames = fr\<lparr>west := east fr\<rparr>,
                                         lastModified = now, custom = True\<rparr>;
                           s' = s\<lparr>store := st2,
                                  spriteDatabase := AList.update nm spriteData (spriteDatabase s)\<rparr>
                       in (s', Inr spriteData,
                           SaveSpriteDatabase
                           # broadcastUpdate s' ''sprite'' ''added'' (SpriteAdded spriteData) None))))"

text \<open>\<open>action\<close> is \<open>data.action\<close>, the empty string when the field is absent.\<close>

definition handleSpriteMessage ::
  "server \<Rightarrow> string \<Rightarrow> string \<Rightarrow> string option \<Rightarrow> json option \<Rightarrow> int
     \<Rightarrow> server \<times> effect list"
where
  "handleSpriteMessage s playerId action spriteName spriteFrames now =
     (if action = ''list'' then
        (s, sendResponse s playerId ''list'' True (Sprites (spriteDatabase s)) None)
      else if action = ''upload'' then
        (case addCustomSprite s spriteName spriteFrames now of
           (s', Inr newSprite, effects) \<Rightarrow>
             (s', effects @ sendResponse s' playerId ''upload'' True (SpriteData newSprite) None)
         | (s', Inl e, effects) \<Rightarrow>
             (s', effects @ sendResponse s' playerId ''upload'' False NoData (Some (Thrown e))))
      else
        (s, sendResponse s playerId (if action \<noteq> [] then action else ''unknown'') False NoData
              (Some (Text ''Unknown sprite action''))))"

section \<open>Predicates of the properties and example states\<close>

text \<open>
  A server with one joined player at (100, 100) and two open sessions, the player's own
  and one of a client that has not joined.
\<close>

definition example_player :: player where
  "example_player =
     \<lparr>id_player = ''k3j9x2m1q'', x = 100, y = 100, sprite = ''default'', facing = ''south'',
      isMoving = False, username = ''Ann'', targetX = None, targetY = None,
      animationFrame = 0, lastAnimationUpdate = 0\<rparr>"

definition example_server :: server where
  "example_server =
     \<lparr>players = [(''k3j9x2m1q'', example_player)],
      spriteDatabase = [],
      connections = [(''k3j9x2m1q'', OPEN), (''w8r5t0z7b'', OPEN)],
      store = \<lparr>root_exists = True, folders = []\<rparr>\<rparr>"

definition move_up :: movement where
  "move_up = \<lparr>stop = False, direction = ''up'', move_x = None, move_y = None\<rparr>"


text \<open>Reading a result: the effects of a handler, and who receives a given update.\<close>

definition effects_of :: "js_error + (server \<times> effect list) \<Rightarrow> effect list" where
  "effects_of r = (case r of Inl e \<Rightarrow> [] | Inr (s, effects) \<Rightarrow> effects)"

fun update_receivers :: "string \<Rightarrow> string \<Rightarrow> effect list \<Rightarrow> string list" where
  "update_receivers category action [] = []"
| "update_receivers category action (Send c (Update cat act d) # rest) =
     (if cat = category \<and> act = action then c # update_receivers category action rest
      else update_receivers category action rest)"
| "update_receivers category action (e # rest) = update_receivers category action rest"

text \<open>
  A player walking by keyboard (\<open>isMoving\<close> with no target), alone and together with an
  idle player whose animation frame is due.
\<close>

definition example_walker :: player where
  "example_walker = example_player\<lparr>facing := ''north'', isMoving := True\<rparr>"

definition example_walker_server :: server where
  "example_walker_server = example_server\<lparr>players := [(''k3j9x2m1q'', example_walker)]\<rparr>"

definition example_idler :: player where
  "example_idler = example_player\<lparr>id_player := ''w8r5t0z7b'', username := ''Bob''\<rparr>"

definition example_pair_server :: server where
  "example_pair_server =
     example_server\<lparr>players := [(''k3j9x2m1q'', example_walker), (''w8r5t0z7b'', example_idler)]\<rparr>"

subsection \<open>When the game loop sets \<open>hasUpdates\<close>\<close>

text \<open>
  The two conditions under which the first loop of the game loop sets \<open>hasUpdates\<close>:
  a player has both target coordinates, or a player without such a target is not moving
  and its last frame change is more than a second old.
\<close>

definition pursuing :: "player \<Rightarrow> bool" where
  "pursuing p \<longleftrightarrow> targetX p \<noteq> None \<and> targetY p \<noteq> None"

definition idle_due :: "int \<Rightarrow> player \<Rightarrow> bool" where
  "idle_due now p \<longleftrightarrow> \<not> pursuing p \<and> \<not> isMoving p \<and> now - lastAnimationUpdate p > 1000"

definition has_updates :: "int \<Rightarrow> (string \<times> player) list \<Rightarrow> bool" where
  "has_updates now ps \<longleftrightarrow> list_ex (\<lambda>(playerId, p). pursuing p \<or> idle_due now p) ps"

subsection \<open>The bounds of the world\<close>

text \<open>
  A coordinate is in bounds between 0 and 4046 (\<open>world.width - 50\<close>). A player is in
  bounds when its position is and when each target coordinate that is set is.
\<close>

definition in_bounds :: "real \<Rightarrow> bool" where
  "in_bounds v \<longleftrightarrow> 0 \<le> v \<and> v \<le> 4046"

definition target_in_bounds :: "real option \<Rightarrow> bool" where
  "target_in_bounds t = (case t of None \<Rightarrow> True | Some v \<Rightarrow> in_bounds v)"

definition player_in_bounds :: "player \<Rightarrow> bool" where
  "player_in_bounds p \<longleftrightarrow>
     in_bounds (x p) \<and> in_bounds (y p)
     \<and> target_in_bounds (targetX p) \<and> target_in_bounds (targetY p)"



subsection \<open>Valid catalog entries\<close>

text \<open>
  The validity that \<open>scanSpritesDirectory\<close> checks before it registers a sprite (at least
  one frame for each of north, south and east), together with west being the copy of east.
\<close>

definition sprite_valid :: "sprite \<Rightarrow> bool" where
  "sprite_valid sp \<longleftrightarrow>
     north (frames sp) \<noteq> [] \<and> south (frames sp) \<noteq> [] \<and> east (frames sp) \<noteq> []
     \<and> west (frames sp) = east (frames sp)"

definition catalog_valid :: "(string \<times> sprite) list \<Rightarrow> bool" where
  "catalog_valid db \<longleftrightarrow> list_all (\<lambda>(spriteName, sp). sprite_valid sp) db"

text \<open>
  An upload with one frame for north, one for south and an empty array for east.
\<close>

definition example_upload_without_east :: json where
  "example_upload_without_east =
     JObj [(''north'', JArr [JStr ''data:image/png;base64,AAAA'']),
           (''south'', JArr [JStr ''data:image/png;base64,BBBB'']),
           (''east'', JArr [])]"

subsection \<open>Uploads that throw\<close>

text \<open>
  The inputs on which \<open>addCustomSprite\<close> throws: the name is no string, or
  \<open>Object.entries\<close> throws on the frames object, or some frame in an array under
  \<open>north\<close>, \<open>south\<close> or \<open>east\<close> is not a string.
\<close>

fun is_string :: "json \<Rightarrow> bool" where
  "is_string (JStr t) = True"
| "is_string v = False"

definition bad_frames :: "(string \<times> json) list \<Rightarrow> bool" where
  "bad_frames entries \<longleftrightarrow>
     list_ex (\<lambda>(dir, v). dir \<in> set [''north'', ''south'', ''east'']
                \<and> (case v of JArr frameArray \<Rightarrow> list_ex (\<lambda>f. \<not> is_string f) frameArray
                    | _ \<Rightarrow> False)) entries"

definition upload_throws :: "string option \<Rightarrow> json option \<Rightarrow> bool" where
  "upload_throws spriteName imageData \<longleftrightarrow>
     spriteName = None
     \<or> (case objectEntries imageData of Inl e \<Rightarrow> True | Inr entries \<Rightarrow> bad_frames entries)"

definition example_broken_upload :: json where
  "example_broken_upload =
     JObj [(''north'', JArr [JStr ''data:image/png;base64,AAAA'', JNum 5])]"

section \<open>Properties\<close>

subsection \<open>Helper lemmas\<close>

lemma map_of_update_same: "map_of (AList.update k v al) k = Some v"
  by (simp add: update_conv')

lemma set_broadcast:
  "set (broadcast s m ex) = {Send c m | c. (c, OPEN) \<in> set (connections s) \<and> Some c \<noteq> ex}"
  by (auto simp: broadcast_def)

lemma tickPlayer_updated: "snd (tickPlayer now p) = (pursuing p \<or> idle_due now p)"
proof (cases "pursuing p")
  case True
  then obtain tX tY where t: "targetX p = Some tX" "targetY p = Some tY"
    by (auto simp add: pursuing_def)
  obtain p1 r where m: "movePlayerTowards p tX tY 3 = (p1, r)"
    by (cases "movePlayerTowards p tX tY 3")
  from True t m show ?thesis
    by (cases r) (simp_all add: tickPlayer_def)
next
  case False
  then have "targetX p = None \<or> targetY p = None"
    by (simp add: pursuing_def)
  with False show ?thesis
    by (cases "targetX p"; cases "targetY p") (simp_all add: tickPlayer_def idle_due_def)
qed


lemma tickPlayers_snd: "snd (tickPlayers now ps h) = (h \<or> has_updates now ps)"
proof (induction ps arbitrary: h)
  case Nil
  show ?case by (simp add: has_updates_def)
next
  case (Cons a ps)
  obtain playerId p where a: "a = (playerId, p)" by (cases a)
  obtain p' u where t: "tickPlayer now p = (p', u)" by (cases "tickPlayer now p")
  from tickPlayer_updated [of now p] t have u: "u = (pursuing p \<or> idle_due now p)"
    by simp
  have "snd (tickPlayers now (a # ps) h) = snd (tickPlayers now ps (h \<or> u))"
    by (simp add: a t case_prod_beta)
  also have "\<dots> = ((h \<or> u) \<or> has_updates now ps)"
    by (rule Cons.IH)
  also have "\<dots> = (h \<or> has_updates now (a # ps))"
    by (auto simp add: a u has_updates_def)
  finally show ?case .
qed

lemma list_all_update:
  "list_all P al \<Longrightarrow> P (k, v) \<Longrightarrow> list_all P (AList.update k v al)"
  by (induction al) auto



text \<open>Evaluation of the file names and payloads of the examples.\<close>

lemma show_nat_1: "show_nat (Suc 0) = ''1''"
  by (simp add: show_nat.simps)

lemma stripDataUrl_example: "stripDataUrl ''data:image/png;base64,AAAA'' = ''AAAA''"
  by (simp add: stripDataUrl_def is_lower_def)

lemma stripDataUrl_example2: "stripDataUrl ''data:image/png;base64,BBBB'' = ''BBBB''"
  by (simp add: stripDataUrl_def is_lower_def)

subsection \<open>Move commands\<close>

text \<open>
  C10. A move command of any kind (also one without a \<open>movement\<close> object), from a session
  id with no player record, returns at once: the server state is unchanged and nothing
  is sent to anyone.
\<close>

theorem move_without_player_is_ignored:
  "map_of (players s) playerId = None \<Longrightarrow> handlePlayerMove s playerId mv now = Inr (s, [])"
  by (simp add: handlePlayerMove_def)

theorem move_without_player_is_ignored_witness:
  "map_of (players example_server) ''w8r5t0z7b'' = None
   \<and> handlePlayerMove example_server ''w8r5t0z7b'' (Some move_up) 100 = Inr (example_server, [])"
proof -
  have h: "map_of (players example_server) ''w8r5t0z7b'' = None"
    by (simp add: example_server_def)
  from h move_without_player_is_ignored [OF h] show ?thesis by simp
qed



text \<open>
  C2, as stated, fails: the \<open>player moved\<close> update of a direction command is broadcast
  with no excluded session, so the sender receives it as well. Here the player of
  session \<open>k3j9x2m1q\<close> moves up and both open sessions are sent the update.
\<close>

theorem move_up_is_sent_to_the_sender:
  "update_receivers ''player'' ''moved''
     (effects_of (handlePlayerMove example_server ''k3j9x2m1q'' (Some move_up) 100))
   = [''k3j9x2m1q'', ''w8r5t0z7b'']"
  by (simp add: handlePlayerMove_def example_server_def example_player_def move_up_def
      effects_of_def broadcastUpdate_def broadcast_def Let_def)

text \<open>
  C2, amended. For a player at (100, 100), the command \<open>move{direction: "up"}\<close> yields
  position (100, 85), facing north and \<open>isMoving = true\<close>, and the \<open>player moved\<close>
  update with the new state is sent to exactly the open sessions, the sender's included.
\<close>

theorem move_up_from_100_100:
  assumes "map_of (players s) playerId = Some p" and "x p = 100" and "y p = 100"
    and "\<not> stop m" and "direction m = ''up''"
  shows "\<exists>s' effects p'.
           handlePlayerMove s playerId (Some m) now = Inr (s', effects)
           \<and> map_of (players s') playerId = Some p'
           \<and> x p' = 100 \<and> y p' = 85 \<and> facing p' = ''north'' \<and> isMoving p'
           \<and> (\<forall>c. Send c (Update ''player'' ''moved'' (PlayerUpdate p')) \<in> set effects
                  \<longleftrightarrow> (c, OPEN) \<in> set (connections s))"
  using assms
  by (auto simp add: handlePlayerMove_def directionPlayer_def Let_def map_of_update_same
      broadcastUpdate_def set_broadcast)

theorem move_up_from_100_100_witness:
  "\<exists>s' effects p'.
      handlePlayerMove example_server ''k3j9x2m1q'' (Some move_up) 100 = Inr (s', effects)
      \<and> map_of (players s') ''k3j9x2m1q'' = Some p'
      \<and> x p' = 100 \<and> y p' = 85 \<and> facing p' = ''north'' \<and> isMoving p'
      \<and> (\<forall>c. Send c (Update ''player'' ''moved'' (PlayerUpdate p')) \<in> set effects
             \<longleftrightarrow> (c, OPEN) \<in> set (connections example_server))"
proof (rule move_up_from_100_100)
  show "map_of (players example_server) ''k3j9x2m1q'' = Some example_player"
    by (simp add: example_server_def)
  show "x example_player = 100" and "y example_player = 100"
    by (simp_all add: example_player_def)
  show "\<not> stop move_up" and "direction move_up = ''up''"
    by (simp_all add: move_up_def)
qed

subsection \<open>Joining again\<close>

text \<open>
  C6. A join for an id that already has a player record leaves the whole server state,
  and so that player's record, as it is; the join response is a success carrying the
  registry snapshot, and the other open sessions are told of the unchanged player.
\<close>

theorem rejoin_keeps_record:
  assumes "map_of (players s) playerId = Some p"
  shows "\<exists>effects.
           handlePlayerJoin s playerId info now random1 random2 = Inr (s, effects)
           \<and> (map_of (connections s) playerId = Some OPEN \<longrightarrow>
                Send playerId (Response ''join'' True (JoinData playerId (players s)) None)
                  \<in> set effects)
           \<and> (\<forall>c. (c, OPEN) \<in> set (connections s) \<and> c \<noteq> playerId \<longrightarrow>
                  Send c (Update ''player'' ''joined'' (PlayerUpdate p)) \<in> set effects)"
  using assms
  by (auto simp add: handlePlayerJoin_def announceJoin_def sendResponse_def sendToPlayer_def
      broadcastUpdate_def set_broadcast)

theorem rejoin_keeps_record_witness:
  "\<exists>effects.
      handlePlayerJoin example_server ''k3j9x2m1q'' None 100 0 0 = Inr (example_server, effects)
      \<and> Send ''k3j9x2m1q''
            (Response ''join'' True (JoinData ''k3j9x2m1q'' (players example_server)) None)
          \<in> set effects
      \<and> Send ''w8r5t0z7b'' (Update ''player'' ''joined'' (PlayerUpdate example_player))
          \<in> set effects"
proof -
  have h: "map_of (players example_server) ''k3j9x2m1q'' = Some example_player"
    by (simp add: example_server_def)
  have c: "map_of (connections example_server) ''k3j9x2m1q'' = Some OPEN"
    "(''w8r5t0z7b'', OPEN) \<in> set (connections example_server)"
    by (simp_all add: example_server_def)
  from rejoin_keeps_record [OF h, of None 100 0 0] c show ?thesis
    by fastforce
qed

subsection \<open>Changing the sprite\<close>




text \<open>
  A name that a plain object inherits passes the check although the catalog has no such
  sprite.
\<close>

lemma inherited_name_passes_the_check:
  "map_of (spriteDatabase example_server) ''constructor'' = None
   \<and> map_of (players (fst (handlePlayerChangeSprite example_server ''k3j9x2m1q'' ''constructor'')))
       ''k3j9x2m1q''
     = Some (example_player\<lparr>sprite := ''constructor''\<rparr>)"
  by (simp add: handlePlayerChangeSprite_def example_server_def example_player_def
      has_property_def object_prototype_keys_def Let_def)

subsection \<open>The catalog\<close>

text \<open>
  C1 at a failing input: an upload with frames for north and south and none for east is
  answered with success and registered, so the catalog then holds an entry with no east
  (and no west) frame.
\<close>

theorem upload_without_east_is_registered:
  "catalog_valid (spriteDatabase example_server)
   \<and> map_of (spriteDatabase (fst (handleSpriteMessage example_server ''k3j9x2m1q'' ''upload''
         (Some ''pumpkin'') (Some example_upload_without_east) 5))) ''pumpkin''
     = Some \<lparr>name = ''pumpkin'',
             frames = \<lparr>north = [''sprites/pumpkin/north_1.png''],
                        south = [''sprites/pumpkin/south_1.png''], east = [], west = []\<rparr>,
             lastModified = 5, custom = True\<rparr>
   \<and> \<not> catalog_valid (spriteDatabase (fst (handleSpriteMessage example_server ''k3j9x2m1q''
         ''upload'' (Some ''pumpkin'') (Some example_upload_without_east) 5)))
   \<and> snd (handleSpriteMessage example_server ''k3j9x2m1q'' ''upload''
         (Some ''pumpkin'') (Some example_upload_without_east) 5) ! 3
     = Send ''k3j9x2m1q''
         (Response ''upload'' True
            (SpriteData \<lparr>name = ''pumpkin'',
               frames = \<lparr>north = [''sprites/pumpkin/north_1.png''],
                          south = [''sprites/pumpkin/south_1.png''], east = [], west = []\<rparr>,
               lastModified = 5, custom = True\<rparr>) None)"
  by (simp add: handleSpriteMessage_def addCustomSprite_def example_server_def ensureFolder_def
      example_upload_without_east_def writeFileSync_def frameFile_def frameRef_def
      getFrames_def setFrames_def show_nat_1 stripDataUrl_example stripDataUrl_example2
      catalog_valid_def sprite_valid_def broadcastUpdate_def broadcast_def sendResponse_def
      sendToPlayer_def Let_def)

text \<open>
  The scan registers only valid sprites, and an upload that succeeds registers a sprite
  whose west frames are its east frames.
\<close>

lemma scanFolder_keeps_valid:
  "catalog_valid (fst acc) \<Longrightarrow> catalog_valid (fst (scanFolder mtime folder acc))"
  by (cases folder; cases acc)
     (auto simp add: scanFolder_def catalog_valid_def sprite_valid_def Let_def
       intro!: list_all_update)

lemma fold_scanFolder_keeps_valid:
  "catalog_valid (fst acc) \<Longrightarrow> catalog_valid (fst (fold (scanFolder mtime) fs acc))"
  by (induction fs arbitrary: acc) (simp_all add: scanFolder_keeps_valid)

lemma scanSpritesDirectory_keeps_valid:
  assumes "catalog_valid (spriteDatabase s)"
  shows "catalog_valid (spriteDatabase (fst (scanSpritesDirectory s mtime)))"
proof (cases "root_exists (store s)")
  case False
  with assms show ?thesis by (simp add: scanSpritesDirectory_def)
next
  case True
  from assms have "catalog_valid (fst (spriteDatabase s, 0::nat))" by simp
  from fold_scanFolder_keeps_valid [OF this, of mtime "folders (store s)"] True
  show ?thesis by (simp add: scanSpritesDirectory_def case_prod_beta)
qed

lemma addCustomSprite_west_is_east:
  assumes "addCustomSprite s spriteName imageData now = (s', Inr sp, effects)"
  shows "west (frames sp) = east (frames sp)
         \<and> (\<exists>nm. spriteName = Some nm \<and> map_of (spriteDatabase s') nm = Some sp)"
  using assms
  by (auto simp add: addCustomSprite_def Let_def update_conv'
      split: option.splits sum.splits prod.splits)

subsection \<open>Uploads that fail\<close>

lemma writeFrames_throws:
  "list_ex (\<lambda>f. \<not> is_string f) frameArray \<Longrightarrow>
   snd (writeFrames spriteName dir frameArray index (st, pushed)) = Inl TypeError"
proof (induction frameArray arbitrary: index st pushed)
  case Nil
  then show ?case by simp
next
  case (Cons f rest)
  show ?case
  proof (cases f)
    case (JStr t)
    with Cons.prems have "list_ex (\<lambda>f. \<not> is_string f) rest" by simp
    from Cons.IH [OF this] JStr show ?thesis by (simp add: Let_def)
  qed simp_all
qed

lemma uploadEntries_throws:
  "bad_frames entries \<Longrightarrow> snd (uploadEntries spriteName entries (st, fr)) = Inl TypeError"
proof (induction entries arbitrary: st fr)
  case Nil
  then show ?case by (simp add: bad_frames_def)
next
  case (Cons entry rest)
  obtain dir v where entry: "entry = (dir, v)" by (cases entry)
  show ?case
  proof (cases "\<exists>frameArray. v = JArr frameArray \<and> dir \<in> set [''north'', ''south'', ''east'']")
    case True
    then obtain frameArray where v: "v = JArr frameArray"
      and dir: "dir \<in> set [''north'', ''south'', ''east'']" by blast
    obtain st' r where w: "writeFrames spriteName dir frameArray 0 (st, getFrames fr dir) = (st', r)"
      by (cases "writeFrames spriteName dir frameArray 0 (st, getFrames fr dir)")
    show ?thesis
    proof (cases r)
      case (Inl e)
      have "e = TypeError" by (cases e) simp
      with Inl w entry v dir show ?thesis by simp
    next
      case (Inr paths)
      have "\<not> list_ex (\<lambda>f. \<not> is_string f) frameArray"
      proof
        assume "list_ex (\<lambda>f. \<not> is_string f) frameArray"
        from writeFrames_throws [OF this, of spriteName dir 0 st "getFrames fr dir"] w Inr
        show False by simp
      qed
      with Cons.prems entry v have "bad_frames rest"
        by (simp add: bad_frames_def)
      from Cons.IH [OF this] Inr w entry v dir show ?thesis by simp
    qed
  next
    case False
    with Cons.prems entry have rest: "bad_frames rest"
      by (auto simp add: bad_frames_def split: json.splits)
    from False entry have "uploadEntries spriteName (entry # rest) (st, fr)
        = uploadEntries spriteName rest (st, fr)"
      by (cases v) auto
    with Cons.IH [OF rest] show ?thesis by simp
  qed
qed

lemma addCustomSprite_throws:
  assumes "upload_throws spriteName imageData"
  shows "\<exists>st. addCustomSprite s spriteName imageData now = (s\<lparr>store := st\<rparr>, Inl TypeError, [])"
proof (cases spriteName)
  case None
  have "s = s\<lparr>store := store s\<rparr>" by simp
  with None show ?thesis
    by (intro exI [of _ "store s"]) (simp add: addCustomSprite_def)
next
  case (Some nm)
  show ?thesis
  proof (cases "objectEntries imageData")
    case (Inl e)
    have "e = TypeError" by (cases e) simp
    with Inl Some show ?thesis
      by (intro exI [of _ "ensureFolder (store s) nm"]) (simp add: addCustomSprite_def)
  next
    case (Inr entries)
    with assms Some have b: "bad_frames entries" by (simp add: upload_throws_def)
    let ?r = "uploadEntries nm entries
                (ensureFolder (store s) nm, \<lparr>north = [], south = [], east = [], west = []\<rparr>)"
    from uploadEntries_throws [OF b] have "snd ?r = Inl TypeError" .
    then obtain st2 where "?r = (st2, Inl TypeError)" by (cases ?r) simp
    with Inr Some show ?thesis
      by (intro exI [of _ st2]) (simp add: addCustomSprite_def Let_def)
  qed
qed

text \<open>
  C7, amended. When an upload throws (the sprite name is no string, the frames object is
  missing or \<open>null\<close>, or a frame under north, south or east is not a string), the upload
  is answered with a failure response and nothing else is sent, and the catalog is as
  before: no entry is created or replaced. Only the sprites directory may have changed.
\<close>

theorem failed_upload_keeps_catalog:
  assumes "upload_throws spriteName spriteFrames"
  shows "spriteDatabase (fst (handleSpriteMessage s playerId ''upload'' spriteName spriteFrames now))
           = spriteDatabase s
         \<and> players (fst (handleSpriteMessage s playerId ''upload'' spriteName spriteFrames now))
           = players s
         \<and> connections (fst (handleSpriteMessage s playerId ''upload'' spriteName spriteFrames now))
           = connections s
         \<and> snd (handleSpriteMessage s playerId ''upload'' spriteName spriteFrames now)
           = (if map_of (connections s) playerId = Some OPEN
              then [Send playerId (Response ''upload'' False NoData (Some (Thrown TypeError)))]
              else [])"
proof -
  from addCustomSprite_throws [OF assms] obtain st where
    "addCustomSprite s spriteName spriteFrames now = (s\<lparr>store := st\<rparr>, Inl TypeError, [])"
    by blast
  then show ?thesis
    by (auto simp add: handleSpriteMessage_def sendResponse_def sendToPlayer_def
        split: option.splits ready_state.splits)
qed

theorem failed_upload_keeps_catalog_witness:
  "spriteDatabase (fst (handleSpriteMessage example_server ''k3j9x2m1q'' ''upload''
      (Some ''pumpkin'') (Some example_broken_upload) 5)) = []
   \<and> snd (handleSpriteMessage example_server ''k3j9x2m1q'' ''upload''
      (Some ''pumpkin'') (Some example_broken_upload) 5)
     = [Send ''k3j9x2m1q'' (Response ''upload'' False NoData (Some (Thrown TypeError)))]"
proof -
  have h: "upload_throws (Some ''pumpkin'') (Some example_broken_upload)"
    by (simp add: upload_throws_def example_broken_upload_def bad_frames_def)
  have c: "map_of (connections example_server) ''k3j9x2m1q'' = Some OPEN"
    and d: "spriteDatabase example_server = []"
    by (simp_all add: example_server_def)
  from failed_upload_keeps_catalog [OF h, of example_server "''k3j9x2m1q''" 5] c d
  show ?thesis by simp
qed

text \<open>
  C7, as stated, fails: the upload below throws at its second frame and is answered with
  a failure, and the folder and the first frame it wrote remain in the sprites directory.
\<close>

theorem failed_upload_leaves_files:
  "handleSpriteMessage example_server ''k3j9x2m1q'' ''upload'' (Some ''pumpkin'')
     (Some example_broken_upload) 5
   = (example_server\<lparr>store :=
        \<lparr>root_exists = True, folders = [(''pumpkin'', [(''north_1.png'', ''AAAA'')])]\<rparr>\<rparr>,
      [Send ''k3j9x2m1q'' (Response ''upload'' False NoData (Some (Thrown TypeError)))])
   \<and> store example_server
       \<noteq> \<lparr>root_exists = True, folders = [(''pumpkin'', [(''north_1.png'', ''AAAA'')])]\<rparr>"
  by (simp add: handleSpriteMessage_def addCustomSprite_def example_server_def
      example_broken_upload_def ensureFolder_def writeFileSync_def frameFile_def frameRef_def
      stripDataUrl_example show_nat_1 sendResponse_def sendToPlayer_def Let_def)


subsection \<open>The game loop\<close>

text \<open>
  The last step of a pursuit: within distance 3 the player is put on the target, and the
  target, the motion flag and the animation frame are reset.
\<close>

lemma tickPlayer_arrival:
  assumes "targetX p = Some tX" and "targetY p = Some tY"
    and "distance (x p) (y p) tX tY \<le> 3"
  shows "tickPlayer now p
         = (p\<lparr>x := tX, y := tY, isMoving := False, targetX := None, targetY := None,
               animationFrame := 0\<rparr>, True)"
  using assms by (simp add: tickPlayer_def movePlayerTowards_def)

text \<open>
  C8, as stated, fails: a player walking by keyboard is announced only on a tick on which
  \<open>hasUpdates\<close> was set. Alone, it sets nothing and nothing is broadcast.
\<close>

theorem keyboard_walker_alone_is_not_announced:
  "announced example_walker
   \<and> gameLoop example_walker_server 100 = (example_walker_server, [])"
  by (simp add: announced_def example_walker_def example_walker_server_def example_server_def
      example_player_def gameLoop_def tickPlayer_def)

text \<open>
  C8, amended. On a tick on which \<open>hasUpdates\<close> is set (some player pursues a target, or
  the frame of some idle player is due), every open session is sent a \<open>player moved\<close>
  update for every player that, after the first loop, has a target coordinate or is
  moving, whether or not that player changed on this tick; nothing else is sent, and on
  any other tick nothing is sent.
\<close>

theorem tick_broadcasts_when_updated:
  assumes "gameLoop s now = (s', effects)"
  shows "SaveSpriteDatabase \<notin> set effects
         \<and> (\<forall>c m. Send c m \<in> set effects \<longleftrightarrow>
               has_updates now (players s) \<and> (c, OPEN) \<in> set (connections s)
               \<and> (\<exists>(playerId, p') \<in> set (players s').
                      announced p' \<and> m = Update ''player'' ''moved'' (PlayerUpdate p')))"
proof -
  obtain ps h where t: "tickPlayers now (players s) False = (ps, h)"
    by (cases "tickPlayers now (players s) False")
  from tickPlayers_snd [of now "players s" False] t
  have h: "h = has_updates now (players s)" by simp
  from assms t have s': "players s' = ps"
    and eff: "effects = (if h then concat (map (\<lambda>(playerId, p).
                  if announced p
                  then broadcastUpdate s ''player'' ''moved'' (PlayerUpdate p) None
                  else []) ps) else [])"
    by (auto simp add: gameLoop_def)
  have mem: "\<And>e. e \<in> set effects \<longleftrightarrow>
      h \<and> (\<exists>playerId p' c. (playerId, p') \<in> set ps \<and> announced p'
             \<and> (c, OPEN) \<in> set (connections s)
             \<and> e = Send c (Update ''player'' ''moved'' (PlayerUpdate p')))"
    unfolding eff by (cases h) (auto simp add: broadcastUpdate_def set_broadcast)
  have "SaveSpriteDatabase \<notin> set effects"
    unfolding mem by simp
  moreover have "\<forall>c m. Send c m \<in> set effects \<longleftrightarrow>
               has_updates now (players s) \<and> (c, OPEN) \<in> set (connections s)
               \<and> (\<exists>(playerId, p') \<in> set (players s').
                      announced p' \<and> m = Update ''player'' ''moved'' (PlayerUpdate p'))"
    unfolding mem s' h by blast
  ultimately show ?thesis by simp
qed


lemma pair_players:
  "players (fst (gameLoop example_pair_server 2000))
   = [(''k3j9x2m1q'', example_walker),
      (''w8r5t0z7b'', example_idler\<lparr>animationFrame := 1, lastAnimationUpdate := 2000\<rparr>)]"
  by (simp add: example_pair_server_def example_server_def example_walker_def
      example_idler_def example_player_def gameLoop_def tickPlayer_def case_prod_beta)

theorem tick_broadcasts_when_updated_witness:
  "Send ''w8r5t0z7b'' (Update ''player'' ''moved'' (PlayerUpdate example_walker))
     \<in> set (snd (gameLoop example_pair_server 2000))
   \<and> SaveSpriteDatabase \<notin> set (snd (gameLoop example_pair_server 2000))"
proof -
  have g: "gameLoop example_pair_server 2000
           = (fst (gameLoop example_pair_server 2000), snd (gameLoop example_pair_server 2000))"
    by simp
  have u: "has_updates 2000 (players example_pair_server)"
    by (simp add: has_updates_def example_pair_server_def example_server_def example_walker_def
        example_idler_def example_player_def pursuing_def idle_due_def)
  have c: "(''w8r5t0z7b'', OPEN) \<in> set (connections example_pair_server)"
    by (simp add: example_pair_server_def example_server_def)
  have a: "announced example_walker"
    by (simp add: announced_def example_walker_def)
  from tick_broadcasts_when_updated [OF g] u c a show ?thesis
    by (auto simp add: pair_players)
qed


subsection \<open>Bounds\<close>













text \<open>A new player starts in bounds: \<open>Math.random()\<close> is at least 0 and less than 1.\<close>

lemma newPlayer_in_bounds:
  assumes "0 \<le> random1" "random1 < 1" "0 \<le> random2" "random2 < 1"
  shows "player_in_bounds (newPlayer s playerId info now random1 random2)"
proof -
  have "\<And>r::real. 0 \<le> r \<Longrightarrow> r < 1 \<Longrightarrow> in_bounds (of_int \<lfloor>r * 4046\<rfloor>)"
  proof -
    fix r :: real assume r: "0 \<le> r" "r < 1"
    have "of_int \<lfloor>r * 4046\<rfloor> \<le> r * 4046" by (rule of_int_floor_le)
    moreover have "(0::int) \<le> \<lfloor>r * 4046\<rfloor>" using r by simp
    ultimately show "in_bounds (of_int \<lfloor>r * 4046\<rfloor>)"
      using r by (simp add: in_bounds_def)
  qed
  with assms show ?thesis
    by (simp add: newPlayer_def player_in_bounds_def target_in_bounds_def
        world_width_def world_height_def)
qed


end
